theory Spec2Isabelle
  imports Main "HOL-Library.Product_Lexorder"
begin

section \<open>Backfill command construction (dags/utils/backfill.py)\<close>

text \<open>
  The module holds two dataclasses. Each has a date-range validation method and a method
  that renders its fields into the argv token list of an external tool. The dataclasses
  are records, \<open>str | None\<close> is \<open>string option\<close>, \<open>list[str] | None\<close> is
  \<open>string list option\<close>, \<open>int | None\<close> is \<open>int option\<close> (Python's integers are
  unbounded). Both classes declare \<open>start_date\<close>, \<open>end_date\<close> and \<open>dry_run\<close>; the record
  fields carry the prefix \<open>af_\<close> (AirflowBackfillParams) or \<open>bq_\<close>
  (BigQueryETLBackfillParams) to keep them apart, and so do the method names.
\<close>

subsection \<open>Exceptions\<close>

text \<open>
  The exceptions that can leave the module's methods. \<open>ValueError\<close> with a message is what
  the source raises itself. The others are raised by the standard library inside the
  methods: \<open>IsoformatError s\<close> is the \<open>ValueError\<close> of \<open>datetime.fromisoformat\<close> on
  a string \<open>s\<close> it does not accept, \<open>NotAStringError\<close> is the \<open>TypeError\<close> of
  \<open>datetime.fromisoformat(None)\<close>, \<open>CompareError\<close> is the \<open>TypeError\<close> of an order
  comparison between an offset-naive and an offset-aware datetime, and \<open>ReError\<close> is
  \<open>re.error\<close>.
\<close>

datatype error =
    ValueError string
  | IsoformatError string
  | NotAStringError
  | CompareError
  | ReError

subsection \<open>Method frames\<close>

text \<open>
  The rendering methods build the local list \<open>cmd\<close> by in-place updates while reading
  \<open>self\<close>. Their bodies are state transformers on a frame that holds both, so that what a
  call does to the instance is part of the model.
\<close>

record 's frame =
  self :: 's
  cmd :: "string list"

definition cmd_extend :: "string list \<Rightarrow> 's frame \<Rightarrow> 's frame" where
  \<comment> \<open>\<open>cmd.extend(xs)\<close>\<close>
  "cmd_extend xs f = f\<lparr>cmd := cmd f @ xs\<rparr>"

definition cmd_append :: "string \<Rightarrow> 's frame \<Rightarrow> 's frame" where
  \<comment> \<open>\<open>cmd.append(x)\<close>\<close>
  "cmd_append x f = f\<lparr>cmd := cmd f @ [x]\<rparr>"

subsection \<open>AirflowBackfillParams\<close>

record AirflowBackfillParams =
  af_start_date :: string
  af_end_date :: string
  af_dag_name :: string
  af_clear :: bool
  af_dry_run :: bool
  af_task_regex :: "string option"

definition str_truthy :: "string option \<Rightarrow> bool" where
  \<comment> \<open>truth value of a \<open>str | None\<close>: \<open>None\<close> and the empty string are false\<close>
  "str_truthy v = (case v of None \<Rightarrow> False | Some s \<Rightarrow> s \<noteq> [])"

definition str_of :: "string option \<Rightarrow> string" where
  \<comment> \<open>\<open>str(v)\<close> of a \<open>str | None\<close>\<close>
  "str_of v = (case v of None \<Rightarrow> ''None'' | Some s \<Rightarrow> s)"

definition airflow_generate_backfill_command_body ::
    "AirflowBackfillParams \<Rightarrow> AirflowBackfillParams frame" where
  "airflow_generate_backfill_command_body p =
     (let f = \<lparr>self = p, cmd = [''airflow'']\<rparr>;
          f = (if af_clear (self f) then
                 (let f = cmd_extend [''tasks'', ''clear''] f;
                      f = (if af_dry_run (self f)
                           then f\<lparr>cmd := [''timeout'', ''60''] @ cmd f\<rparr>
                           else cmd_append ''-y'' f)
                  in if str_truthy (af_task_regex (self f))
                     then cmd_extend [''-t'', str_of (af_task_regex (self f))] f
                     else f)
               else
                 (let f = cmd_extend [''dags'', ''backfill'', ''--donot-pickle''] f;
                      f = (if af_dry_run (self f) then cmd_append ''--dry-run'' f else f)
                  in if str_truthy (af_task_regex (self f))
                     then cmd_extend [''-t'', str_of (af_task_regex (self f))] f
                     else f))
      in cmd_extend [''-s'', af_start_date (self f), ''-e'', af_end_date (self f),
                 af_dag_name (self f)] f)"

definition airflow_generate_backfill_command :: "AirflowBackfillParams \<Rightarrow> string list" where
  \<comment> \<open>the value the method returns: the \<open>cmd\<close> of the final frame\<close>
  "airflow_generate_backfill_command p = cmd (airflow_generate_backfill_command_body p)"

subsection \<open>BigQueryETLBackfillParams\<close>

record BigQueryETLBackfillParams =
  bq_start_date :: string
  bq_destination_table :: string
  bq_dataset_id :: string
  bq_project_id :: string
  bq_dry_run :: bool
  bq_no_partition :: bool
  bq_end_date :: "string option"
  bq_excludes :: "string list option"
  bq_parallelism :: "int option"

fun join :: "string \<Rightarrow> string list \<Rightarrow> string" where
  \<comment> \<open>\<open>sep.join(xs)\<close>\<close>
  "join sep [] = []"
| "join sep [x] = x"
| "join sep (x # y # ys) = x @ sep @ join sep (y # ys)"

fun str_nat :: "nat \<Rightarrow> string" where
  \<comment> \<open>decimal digits of a natural number, most significant first\<close>
  "str_nat n =
     (if n < 10 then [''0123456789'' ! n]
      else str_nat (n div 10) @ [''0123456789'' ! (n mod 10)])"

declare str_nat.simps [simp del]

definition str_int :: "int \<Rightarrow> string" where
  \<comment> \<open>\<open>str(i)\<close> of an \<open>int\<close>, which is also how an f-string formats it. The interpreter's
      configurable limit on the number of digits of such a conversion is not part of the
      model.\<close>
  "str_int i = (if i < 0 then ''-'' @ str_nat (nat (- i)) else str_nat (nat i))"

definition bqetl_generate_backfill_command_body ::
    "BigQueryETLBackfillParams \<Rightarrow> BigQueryETLBackfillParams frame" where
  "bqetl_generate_backfill_command_body p =
     (let f = \<lparr>self = p,
                cmd = [''script/bqetl'', ''query'', ''backfill'',
                       bq_dataset_id p @ ''.'' @ bq_destination_table p,
                       ''--start-date='' @ bq_start_date p]\<rparr>;
          f = (if str_truthy (bq_end_date (self f))
               then cmd_append (''--end-date='' @ str_of (bq_end_date (self f))) f
               else f);
          f = (case bq_excludes (self f) of
                 None \<Rightarrow> f
               | Some xs \<Rightarrow>
                   if xs \<noteq> [] then cmd_append (''--exclude='' @ join '','' xs) f else f);
          f = (if bq_dry_run (self f) then cmd_append ''--dry-run'' f else f);
          f = (case bq_parallelism (self f) of
                 None \<Rightarrow> f
               | Some n \<Rightarrow>
                   if n \<noteq> 0 then cmd_append (''--parallelism='' @ str_int n) f else f);
          f = (if bq_no_partition (self f) then cmd_append ''--no-partition'' f else f)
      in f)"

definition bqetl_generate_backfill_command :: "BigQueryETLBackfillParams \<Rightarrow> string list" where
  "bqetl_generate_backfill_command p = cmd (bqetl_generate_backfill_command_body p)"

subsection \<open>Datetime values and their comparison\<close>

text \<open>
  \<open>datetime.datetime\<close> of the standard library: the seven calendar fields and the
  offset from UTC in microseconds, \<open>None\<close> for an offset-naive value. The order comparison
  follows the library: values with the same offset (both naive included) compare by their
  fields, a naive and an aware value do not compare (\<open>TypeError\<close>), and aware values with
  different offsets compare by their instants.
\<close>

record datetime =
  dt_year :: nat
  dt_month :: nat
  dt_day :: nat
  dt_hour :: nat
  dt_minute :: nat
  dt_second :: nat
  dt_microsecond :: nat
  dt_utcoffset :: "int option"

definition is_leap :: "nat \<Rightarrow> bool" where
  "is_leap y = (y mod 4 = 0 \<and> (y mod 100 \<noteq> 0 \<or> y mod 400 = 0))"

definition days_in_month :: "nat \<Rightarrow> nat \<Rightarrow> nat" where
  "days_in_month y m =
     (if m = 2 \<and> is_leap y then 29
      else [0, 31, 28, 31, 30, 31, 30, 31, 31, 30, 31, 30, 31] ! m)"

definition days_before_year :: "nat \<Rightarrow> int" where
  "days_before_year y =
     (let y' = int y - 1 in y' * 365 + y' div 4 - y' div 100 + y' div 400)"

definition days_before_month :: "nat \<Rightarrow> nat \<Rightarrow> int" where
  "days_before_month y m =
     int ([0, 0, 31, 59, 90, 120, 151, 181, 212, 243, 273, 304, 334] ! m)
     + (if m > 2 \<and> is_leap y then 1 else 0)"

definition toordinal :: "datetime \<Rightarrow> int" where
  "toordinal d =
     days_before_year (dt_year d) + days_before_month (dt_year d) (dt_month d)
     + int (dt_day d)"

definition utc_microseconds :: "datetime \<Rightarrow> int \<Rightarrow> int" where
  \<comment> \<open>the instant of a value with offset \<open>off\<close>, in microseconds\<close>
  "utc_microseconds d off =
     ((toordinal d * 24 + int (dt_hour d)) * 60 + int (dt_minute d)) * 60000000
     + int (dt_second d) * 1000000 + int (dt_microsecond d) - off"

definition py_cmp :: "'a::linorder \<Rightarrow> 'a \<Rightarrow> int" where
  "py_cmp x y = (if x = y then 0 else if x > y then 1 else - 1)"

definition datetime_fields :: "datetime \<Rightarrow> nat \<times> nat \<times> nat \<times> nat \<times> nat \<times> nat \<times> nat" where
  "datetime_fields d =
     (dt_year d, dt_month d, dt_day d, dt_hour d, dt_minute d, dt_second d,
      dt_microsecond d)"

definition datetime_cmp :: "datetime \<Rightarrow> datetime \<Rightarrow> error + int" where
  "datetime_cmp a b =
     (if dt_utcoffset a = dt_utcoffset b
      then Inr (py_cmp (datetime_fields a) (datetime_fields b))
      else (case (dt_utcoffset a, dt_utcoffset b) of
              (Some oa, Some ob) \<Rightarrow>
                Inr (py_cmp (utc_microseconds a oa) (utc_microseconds b ob))
            | _ \<Rightarrow> Inl CompareError))"

definition datetime_gt :: "datetime \<Rightarrow> datetime \<Rightarrow> error + bool" where
  \<comment> \<open>\<open>a > b\<close>\<close>
  "datetime_gt a b = (case datetime_cmp a b of Inl e \<Rightarrow> Inl e | Inr c \<Rightarrow> Inr (c > 0))"

definition datetime_le :: "datetime \<Rightarrow> datetime \<Rightarrow> error + bool" where
  \<comment> \<open>\<open>a <= b\<close>\<close>
  "datetime_le a b = (case datetime_cmp a b of Inl e \<Rightarrow> Inl e | Inr c \<Rightarrow> Inr (c \<le> 0))"

subsection \<open>Date-range validation\<close>

text \<open>
  Both classes parse their two dates with \<open>datetime.datetime.fromisoformat\<close> and compare
  the results. The parser belongs to the standard library and the set of strings it
  accepts differs between interpreter versions, so the methods take it as the parameter
  \<open>fromisoformat\<close>: a string is either parsed or rejected with an exception. What the
  methods add is the order of the two calls, the comparison and the \<open>ValueError\<close>.
\<close>

definition date_range_message :: "string \<Rightarrow> string \<Rightarrow> string" where
  "date_range_message s e =
     ''`start_date`='' @ s @ '' is greater than `end_date`='' @ e"

definition airflow_validate_date_range ::
    "(string \<Rightarrow> error + datetime) \<Rightarrow> AirflowBackfillParams \<Rightarrow> error + unit" where
  "airflow_validate_date_range fromisoformat p =
     (case fromisoformat (af_start_date p) of
        Inl e \<Rightarrow> Inl e
      | Inr start_date \<Rightarrow>
          (case fromisoformat (af_end_date p) of
             Inl e \<Rightarrow> Inl e
           | Inr end_date \<Rightarrow>
               (case datetime_gt start_date end_date of
                  Inl e \<Rightarrow> Inl e
                | Inr gt \<Rightarrow>
                    if gt
                    then Inl (ValueError (date_range_message (af_start_date p) (af_end_date p)))
                    else Inr ())))"

definition fromisoformat_arg ::
    "(string \<Rightarrow> error + datetime) \<Rightarrow> string option \<Rightarrow> error + datetime" where
  \<comment> \<open>the parser called on a \<open>str | None\<close>: it refuses an argument that is not a string\<close>
  "fromisoformat_arg fromisoformat v =
     (case v of None \<Rightarrow> Inl NotAStringError | Some s \<Rightarrow> fromisoformat s)"

definition bqetl_validate_date_range ::
    "(string \<Rightarrow> error + datetime) \<Rightarrow> BigQueryETLBackfillParams \<Rightarrow> error + unit" where
  "bqetl_validate_date_range fromisoformat p =
     (case fromisoformat (bq_start_date p) of
        Inl e \<Rightarrow> Inl e
      | Inr start_date \<Rightarrow>
          (case fromisoformat_arg fromisoformat (bq_end_date p) of
             Inl e \<Rightarrow> Inl e
           | Inr end_date \<Rightarrow>
               (case datetime_gt start_date end_date of
                  Inl e \<Rightarrow> Inl e
                | Inr gt \<Rightarrow>
                    if gt
                    then Inl (ValueError
                           (date_range_message (bq_start_date p) (str_of (bq_end_date p))))
                    else Inr ())))"

text \<open>
  The library's parser on the calendar-date form \<open>YYYY-MM-DD\<close>, which every interpreter
  version accepts and which the module's callers use: ten characters, ASCII digits, a year
  from 1, a month from 1 to 12 and a day of that month; the value is offset-naive, at
  midnight. The other forms the library accepts are outside this function, which rejects
  them; the theorems below hold for any parser and use this one at concrete dates.
\<close>

definition digit_val :: "char \<Rightarrow> nat option" where
  "digit_val c =
     (let n = (of_char c :: nat) in if 48 \<le> n \<and> n \<le> 57 then Some (n - 48) else None)"

fun digits_val :: "nat \<Rightarrow> string \<Rightarrow> nat option" where
  \<comment> \<open>the number written by a string of digits, after the digits read so far\<close>
  "digits_val acc [] = Some acc"
| "digits_val acc (c # cs) =
     (case digit_val c of None \<Rightarrow> None | Some d \<Rightarrow> digits_val (10 * acc + d) cs)"

definition fromisoformat_date :: "string \<Rightarrow> error + datetime" where
  "fromisoformat_date s =
     (if length s = 10 \<and> s ! 4 = CHR ''-'' \<and> s ! 7 = CHR ''-'' then
        (case (digits_val 0 (take 4 s), digits_val 0 (take 2 (drop 5 s)),
               digits_val 0 (drop 8 s)) of
           (Some y, Some m, Some d) \<Rightarrow>
             if 1 \<le> y \<and> 1 \<le> m \<and> m \<le> 12 \<and> 1 \<le> d \<and> d \<le> days_in_month y m
             then Inr \<lparr>dt_year = y, dt_month = m, dt_day = d, dt_hour = 0, dt_minute = 0,
                       dt_second = 0, dt_microsecond = 0, dt_utcoffset = None\<rparr>
             else Inl (IsoformatError s)
         | _ \<Rightarrow> Inl (IsoformatError s))
      else Inl (IsoformatError s))"

subsection \<open>Regular-expression validation\<close>







subsection \<open>The documented scenarios and renderings\<close>

text \<open>
  The requests of the documented scenarios 1 to 4. Scenario 4 leaves \<open>project_id\<close>
  open; it is filled in.
\<close>

definition scenario_1 :: AirflowBackfillParams where
  "scenario_1 =
     \<lparr>af_start_date = ''2023-01-01'', af_end_date = ''2023-01-02'',
      af_dag_name = ''my_workflow'', af_clear = True, af_dry_run = True,
      af_task_regex = Some ''load_.*''\<rparr>"

definition scenario_2 :: AirflowBackfillParams where
  "scenario_2 =
     \<lparr>af_start_date = ''2023-01-01'', af_end_date = ''2023-01-01'',
      af_dag_name = ''w'', af_clear = True, af_dry_run = False,
      af_task_regex = None\<rparr>"

definition scenario_3 :: AirflowBackfillParams where
  "scenario_3 =
     \<lparr>af_start_date = ''2023-01-01'', af_end_date = ''2023-01-05'',
      af_dag_name = ''w'', af_clear = False, af_dry_run = True,
      af_task_regex = None\<rparr>"

definition scenario_4 :: BigQueryETLBackfillParams where
  "scenario_4 =
     \<lparr>bq_start_date = ''2023-01-01'', bq_destination_table = ''events'',
      bq_dataset_id = ''telemetry'', bq_project_id = ''project'', bq_dry_run = False,
      bq_no_partition = True, bq_end_date = Some ''2023-01-31'',
      bq_excludes = Some [''a'', ''b''], bq_parallelism = Some 4\<rparr>"



text \<open>
  The requests of the documented scenarios 5 and 6 (the fields the scenarios leave open
  are filled in), and a date after the end date of scenario 4.
\<close>

definition scenario_5 :: AirflowBackfillParams where
  "scenario_5 =
     \<lparr>af_start_date = ''2023-02-01'', af_end_date = ''2023-01-01'',
      af_dag_name = ''w'', af_clear = False, af_dry_run = False,
      af_task_regex = None\<rparr>"


definition naive_date :: "nat \<Rightarrow> nat \<Rightarrow> nat \<Rightarrow> datetime" where
  \<comment> \<open>the offset-naive value of a calendar date, at midnight\<close>
  "naive_date y m d =
     \<lparr>dt_year = y, dt_month = m, dt_day = d, dt_hour = 0, dt_minute = 0,
      dt_second = 0, dt_microsecond = 0, dt_utcoffset = None\<rparr>"

definition unparsable_start_request :: BigQueryETLBackfillParams where
  \<comment> \<open>a request without \<open>end_date\<close> whose \<open>start_date\<close> is not a date\<close>
  "unparsable_start_request =
     \<lparr>bq_start_date = ''yesterday'', bq_destination_table = ''events'',
      bq_dataset_id = ''telemetry'', bq_project_id = ''project'', bq_dry_run = False,
      bq_no_partition = False, bq_end_date = None,
      bq_excludes = None, bq_parallelism = None\<rparr>"

section \<open>Properties\<close>

subsection \<open>Frames\<close>

lemma self_cmd_extend: "self (cmd_extend xs f) = self f"
  by (simp add: cmd_extend_def)

lemma cmd_cmd_extend: "cmd (cmd_extend xs f) = cmd f @ xs"
  by (simp add: cmd_extend_def)

lemma self_cmd_append: "self (cmd_append x f) = self f"
  by (simp add: cmd_append_def)

lemma cmd_cmd_append: "cmd (cmd_append x f) = cmd f @ [x]"
  by (simp add: cmd_append_def)

lemma self_if_append: "self (if c then cmd_append x f else f) = self f"
  by (simp add: self_cmd_append)

lemma cmd_if_append: "cmd (if c then cmd_append x f else f) = cmd f @ (if c then [x] else [])"
  by (simp add: cmd_cmd_append)

lemma self_case_append:
  "self (case v of None \<Rightarrow> f | Some n \<Rightarrow> if P n then cmd_append (g n) f else f) = self f"
  by (simp add: self_cmd_append split: option.split)

lemma cmd_case_append:
  "cmd (case v of None \<Rightarrow> f | Some n \<Rightarrow> if P n then cmd_append (g n) f else f) =
     cmd f @ (case v of None \<Rightarrow> [] | Some n \<Rightarrow> if P n then [g n] else [])"
  by (simp add: cmd_cmd_append split: option.split)

lemmas frame_simps = self_cmd_extend cmd_cmd_extend self_cmd_append cmd_cmd_append
  self_if_append cmd_if_append self_case_append cmd_case_append

lemma frame_eqI:
  fixes f g :: "'s frame"
  shows "self f = self g \<Longrightarrow> cmd f = cmd g \<Longrightarrow> f = g"
  by simp

subsection \<open>Closed forms of the method bodies\<close>

lemma airflow_body_unfold:
  "airflow_generate_backfill_command_body p =
     \<lparr>self = p,
      cmd = (if af_clear p
        then (if af_dry_run p then [''timeout'', ''60'', ''airflow'', ''tasks'', ''clear'']
              else [''airflow'', ''tasks'', ''clear'', ''-y''])
        else [''airflow'', ''dags'', ''backfill'', ''--donot-pickle'']
           @ (if af_dry_run p then [''--dry-run''] else []))
     @ (if str_truthy (af_task_regex p) then [''-t'', str_of (af_task_regex p)] else [])
     @ [''-s'', af_start_date p, ''-e'', af_end_date p, af_dag_name p]\<rparr>"
  by (simp add: airflow_generate_backfill_command_body_def cmd_extend_def cmd_append_def Let_def)

lemma bqetl_body_unfold:
  "bqetl_generate_backfill_command_body p =
    \<lparr>self = p,
     cmd = [''script/bqetl'', ''query'', ''backfill'',
      bq_dataset_id p @ ''.'' @ bq_destination_table p,
      ''--start-date='' @ bq_start_date p]
     @ (if str_truthy (bq_end_date p) then [''--end-date='' @ str_of (bq_end_date p)] else [])
     @ (case bq_excludes p of
          None \<Rightarrow> [] | Some xs \<Rightarrow> if xs \<noteq> [] then [''--exclude='' @ join '','' xs] else [])
     @ (if bq_dry_run p then [''--dry-run''] else [])
     @ (case bq_parallelism p of
          None \<Rightarrow> [] | Some n \<Rightarrow> if n \<noteq> 0 then [''--parallelism='' @ str_int n] else [])
     @ (if bq_no_partition p then [''--no-partition''] else [])\<rparr>"
  by (rule frame_eqI)
     (simp_all only: bqetl_generate_backfill_command_body_def Let_def frame_simps
        frame.select_convs append_assoc)

lemma filter_tokens_cases:
  "(if str_truthy v then [''-t'', str_of v] else []) =
   (case v of None \<Rightarrow> [] | Some r \<Rightarrow> if r = [] then [] else [''-t'', r])"
  by (cases v) (simp_all add: str_truthy_def str_of_def)

lemma end_date_token_cases:
  "(if str_truthy v then [''--end-date='' @ str_of v] else []) =
   (case v of None \<Rightarrow> [] | Some e \<Rightarrow> if e \<noteq> [] then [''--end-date='' @ e] else [])"
  by (cases v) (simp_all add: str_truthy_def str_of_def)

lemma airflow_cmd_unfold:
  "airflow_generate_backfill_command p =
     (if af_clear p
      then (if af_dry_run p then [''timeout'', ''60'', ''airflow'', ''tasks'', ''clear'']
            else [''airflow'', ''tasks'', ''clear'', ''-y''])
      else [''airflow'', ''dags'', ''backfill'', ''--donot-pickle'']
           @ (if af_dry_run p then [''--dry-run''] else []))
     @ (case af_task_regex p of None \<Rightarrow> [] | Some r \<Rightarrow> if r = [] then [] else [''-t'', r])
     @ [''-s'', af_start_date p, ''-e'', af_end_date p, af_dag_name p]"
  by (simp only: airflow_generate_backfill_command_def airflow_body_unfold frame.select_convs
      filter_tokens_cases)

lemma bqetl_cmd_unfold:
  "bqetl_generate_backfill_command p =
     [''script/bqetl'', ''query'', ''backfill'',
      bq_dataset_id p @ ''.'' @ bq_destination_table p,
      ''--start-date='' @ bq_start_date p]
     @ (case bq_end_date p of
          None \<Rightarrow> [] | Some e \<Rightarrow> if e \<noteq> [] then [''--end-date='' @ e] else [])
     @ (case bq_excludes p of
          None \<Rightarrow> [] | Some xs \<Rightarrow> if xs \<noteq> [] then [''--exclude='' @ join '','' xs] else [])
     @ (if bq_dry_run p then [''--dry-run''] else [])
     @ (case bq_parallelism p of
          None \<Rightarrow> [] | Some n \<Rightarrow> if n \<noteq> 0 then [''--parallelism='' @ str_int n] else [])
     @ (if bq_no_partition p then [''--no-partition''] else [])"
  by (simp only: bqetl_generate_backfill_command_def bqetl_body_unfold frame.select_convs
      end_date_token_cases)


subsection \<open>Orchestrator rendering\<close>

text \<open>
  C1. With \<open>clear\<close> and \<open>dry_run\<close> both true, the rendered command is the wrapper tokens
  \<open>timeout\<close>, \<open>60\<close> in front of the whole clear command: the executable and subcommand,
  the filter tokens of a non-empty filter, then the dates and the workflow name. The
  request of scenario 1 renders to the documented twelve tokens.
\<close>

theorem airflow_clear_dry_run_command:
  "(af_clear p \<and> af_dry_run p \<longrightarrow>
      airflow_generate_backfill_command p =
        [''timeout'', ''60''] @ [''airflow'', ''tasks'', ''clear'']
        @ (case af_task_regex p of
             None \<Rightarrow> [] | Some r \<Rightarrow> if r = [] then [] else [''-t'', r])
        @ [''-s'', af_start_date p, ''-e'', af_end_date p, af_dag_name p])
   \<and> airflow_generate_backfill_command scenario_1 =
       [''timeout'', ''60'', ''airflow'', ''tasks'', ''clear'', ''-t'', ''load_.*'',
        ''-s'', ''2023-01-01'', ''-e'', ''2023-01-02'', ''my_workflow'']"
  by (simp add: airflow_cmd_unfold scenario_1_def)

theorem airflow_clear_dry_run_command_witness:
  "af_clear scenario_1 \<and> af_dry_run scenario_1 \<and>
   airflow_generate_backfill_command scenario_1 =
     [''timeout'', ''60''] @ [''airflow'', ''tasks'', ''clear''] @ [''-t'', ''load_.*'']
     @ [''-s'', ''2023-01-01'', ''-e'', ''2023-01-02'', ''my_workflow'']"
  using airflow_clear_dry_run_command [of scenario_1] by (simp add: scenario_1_def)

text \<open>
  C6. With \<open>clear\<close> true and \<open>dry_run\<close> false, the confirmation flag \<open>-y\<close> follows the
  clear subcommand and the command starts with the executable: there is no timeout
  wrapper. The request of scenario 2 renders to the documented nine tokens.
\<close>

theorem airflow_clear_confirmed_command:
  "(af_clear p \<and> \<not> af_dry_run p \<longrightarrow>
      airflow_generate_backfill_command p =
        [''airflow'', ''tasks'', ''clear'', ''-y'']
        @ (case af_task_regex p of
             None \<Rightarrow> [] | Some r \<Rightarrow> if r = [] then [] else [''-t'', r])
        @ [''-s'', af_start_date p, ''-e'', af_end_date p, af_dag_name p])
   \<and> airflow_generate_backfill_command scenario_2 =
       [''airflow'', ''tasks'', ''clear'', ''-y'', ''-s'', ''2023-01-01'', ''-e'',
        ''2023-01-01'', ''w'']"
  by (simp add: airflow_cmd_unfold scenario_2_def)

theorem airflow_clear_confirmed_command_witness:
  "af_clear scenario_2 \<and> \<not> af_dry_run scenario_2 \<and>
   airflow_generate_backfill_command scenario_2 =
     [''airflow'', ''tasks'', ''clear'', ''-y'']
     @ [''-s'', ''2023-01-01'', ''-e'', ''2023-01-01'', ''w'']"
  using airflow_clear_confirmed_command [of scenario_2] by (simp add: scenario_2_def)

text \<open>
  C7. With \<open>clear\<close> false, the command is the backfill subcommand with the fixed flag
  \<open>--donot-pickle\<close>, then \<open>--dry-run\<close> when \<open>dry_run\<close> is true, then the filter tokens
  of a non-empty filter. In either branch the command ends with \<open>-s\<close>, the start date,
  \<open>-e\<close>, the end date and the workflow name. The request of scenario 3 renders to the
  documented ten tokens.
\<close>

theorem airflow_backfill_command:
  "(\<not> af_clear p \<longrightarrow>
      airflow_generate_backfill_command p =
        [''airflow'', ''dags'', ''backfill'', ''--donot-pickle'']
        @ (if af_dry_run p then [''--dry-run''] else [])
        @ (case af_task_regex p of
             None \<Rightarrow> [] | Some r \<Rightarrow> if r = [] then [] else [''-t'', r])
        @ [''-s'', af_start_date p, ''-e'', af_end_date p, af_dag_name p])
   \<and> (\<exists>front. airflow_generate_backfill_command p =
         front @ [''-s'', af_start_date p, ''-e'', af_end_date p, af_dag_name p])
   \<and> airflow_generate_backfill_command scenario_3 =
       [''airflow'', ''dags'', ''backfill'', ''--donot-pickle'', ''--dry-run'',
        ''-s'', ''2023-01-01'', ''-e'', ''2023-01-05'', ''w'']"
proof (intro conjI)
  show "\<exists>front. airflow_generate_backfill_command p =
         front @ [''-s'', af_start_date p, ''-e'', af_end_date p, af_dag_name p]"
    by (subst airflow_cmd_unfold, subst append_assoc [symmetric]) (rule exI, rule refl)
qed (simp_all add: airflow_cmd_unfold scenario_3_def)

theorem airflow_backfill_command_witness:
  "\<not> af_clear scenario_3 \<and>
   airflow_generate_backfill_command scenario_3 =
     [''airflow'', ''dags'', ''backfill'', ''--donot-pickle''] @ [''--dry-run'']
     @ [''-s'', ''2023-01-01'', ''-e'', ''2023-01-05'', ''w'']"
  using airflow_backfill_command [of scenario_3] by (simp add: scenario_3_def)

text \<open>
  C10. An empty \<open>task_regex\<close> renders as an absent one, in the clear and in the backfill
  branch: the command is the branch's tokens followed directly by the dates and the
  workflow name. The token \<open>-t\<close> and the empty token are then in the command only if a
  date or the workflow name is that very string.
\<close>

theorem airflow_empty_filter_as_absent:
  "airflow_generate_backfill_command (p\<lparr>af_task_regex := Some []\<rparr>) =
     airflow_generate_backfill_command (p\<lparr>af_task_regex := None\<rparr>)
   \<and> airflow_generate_backfill_command (p\<lparr>af_task_regex := Some []\<rparr>) =
       (if af_clear p
        then (if af_dry_run p then [''timeout'', ''60'', ''airflow'', ''tasks'', ''clear'']
              else [''airflow'', ''tasks'', ''clear'', ''-y''])
        else [''airflow'', ''dags'', ''backfill'', ''--donot-pickle'']
             @ (if af_dry_run p then [''--dry-run''] else []))
       @ [''-s'', af_start_date p, ''-e'', af_end_date p, af_dag_name p]
   \<and> (af_start_date p \<noteq> ''-t'' \<and> af_end_date p \<noteq> ''-t'' \<and> af_dag_name p \<noteq> ''-t'' \<longrightarrow>
        ''-t'' \<notin> set (airflow_generate_backfill_command (p\<lparr>af_task_regex := Some []\<rparr>)))
   \<and> (af_start_date p \<noteq> [] \<and> af_end_date p \<noteq> [] \<and> af_dag_name p \<noteq> [] \<longrightarrow>
        [] \<notin> set (airflow_generate_backfill_command (p\<lparr>af_task_regex := Some []\<rparr>)))"
  by (simp add: airflow_cmd_unfold) auto

theorem airflow_empty_filter_as_absent_witness:
  "af_start_date scenario_3 \<noteq> ''-t'' \<and> af_end_date scenario_3 \<noteq> ''-t''
   \<and> af_dag_name scenario_3 \<noteq> ''-t''
   \<and> af_start_date scenario_3 \<noteq> [] \<and> af_end_date scenario_3 \<noteq> []
   \<and> af_dag_name scenario_3 \<noteq> []
   \<and> airflow_generate_backfill_command (scenario_3\<lparr>af_task_regex := Some []\<rparr>) =
       [''airflow'', ''dags'', ''backfill'', ''--donot-pickle'', ''--dry-run'',
        ''-s'', ''2023-01-01'', ''-e'', ''2023-01-05'', ''w'']
   \<and> ''-t'' \<notin> set (airflow_generate_backfill_command (scenario_3\<lparr>af_task_regex := Some []\<rparr>))
   \<and> [] \<notin> set (airflow_generate_backfill_command (scenario_3\<lparr>af_task_regex := Some []\<rparr>))"
  using airflow_empty_filter_as_absent [of scenario_3]
  by (simp add: scenario_3_def airflow_cmd_unfold)

subsection \<open>Warehouse rendering\<close>



text \<open>
  C9. Changing \<open>project_id\<close> to any value leaves the rendered warehouse command as it
  is: two requests that differ in \<open>project_id\<close> only render to the same tokens.
\<close>

theorem bqetl_project_id_unused:
  "bqetl_generate_backfill_command (p\<lparr>bq_project_id := v\<rparr>) =
     bqetl_generate_backfill_command p"
  by (simp add: bqetl_cmd_unfold)

subsection \<open>Rendering is a function of the fields\<close>


subsection \<open>Comparison of datetime values\<close>

lemma datetime_cmp_defined:
  "(dt_utcoffset a = None \<longleftrightarrow> dt_utcoffset b = None) \<Longrightarrow> \<exists>c. datetime_cmp a b = Inr c"
  by (cases "dt_utcoffset a"; cases "dt_utcoffset b") (simp_all add: datetime_cmp_def)

lemma datetime_le_iff_not_gt:
  "datetime_le a b = Inr True \<longleftrightarrow> datetime_gt a b = Inr False"
  by (cases "datetime_cmp a b") (auto simp: datetime_le_def datetime_gt_def)

lemma datetime_cmp_mixed:
  "dt_utcoffset a = None \<Longrightarrow> dt_utcoffset b = Some off \<Longrightarrow>
     datetime_cmp a b = Inl CompareError \<and> datetime_cmp b a = Inl CompareError"
  by (simp add: datetime_cmp_def)

lemma fromisoformat_date_2023_01_01:
  "fromisoformat_date ''2023-01-01'' = Inr (naive_date 2023 1 1)"
  by (simp add: fromisoformat_date_def digit_val_def days_in_month_def is_leap_def
      naive_date_def)

lemma fromisoformat_date_2023_01_31:
  "fromisoformat_date ''2023-01-31'' = Inr (naive_date 2023 1 31)"
  by (simp add: fromisoformat_date_def digit_val_def days_in_month_def is_leap_def
      naive_date_def)

lemma fromisoformat_date_2023_02_01:
  "fromisoformat_date ''2023-02-01'' = Inr (naive_date 2023 2 1)"
  by (simp add: fromisoformat_date_def digit_val_def days_in_month_def is_leap_def
      naive_date_def)

lemma naive_date_le:
  "datetime_le (naive_date y m d) (naive_date y' m' d') = Inr ((y, m, d) \<le> (y', m', d'))"
  by (auto simp: datetime_le_def datetime_cmp_def py_cmp_def datetime_fields_def
      naive_date_def less_eq_prod_def less_prod_def)

lemma naive_date_gt:
  "datetime_gt (naive_date y m d) (naive_date y' m' d') = Inr ((y, m, d) > (y', m', d'))"
  by (auto simp: datetime_gt_def datetime_cmp_def py_cmp_def datetime_fields_def
      naive_date_def less_eq_prod_def less_prod_def)

subsection \<open>Date-range validation\<close>

lemma airflow_validate_parsed:
  "fromisoformat (af_start_date p) = Inr a \<Longrightarrow> fromisoformat (af_end_date p) = Inr b \<Longrightarrow>
     airflow_validate_date_range fromisoformat p =
       (case datetime_gt a b of
          Inl e \<Rightarrow> Inl e
        | Inr gt \<Rightarrow>
            if gt then Inl (ValueError (date_range_message (af_start_date p) (af_end_date p)))
            else Inr ())"
  by (simp add: airflow_validate_date_range_def)

lemma bqetl_validate_parsed:
  "fromisoformat (bq_start_date q) = Inr a \<Longrightarrow> bq_end_date q = Some e \<Longrightarrow>
   fromisoformat e = Inr b \<Longrightarrow>
     bqetl_validate_date_range fromisoformat q =
       (case datetime_gt a b of
          Inl e \<Rightarrow> Inl e
        | Inr gt \<Rightarrow>
            if gt then Inl (ValueError (date_range_message (bq_start_date q) e))
            else Inr ())"
  by (simp add: bqetl_validate_date_range_def fromisoformat_arg_def str_of_def
      cong: sum.case_cong if_cong)

lemma airflow_validate_mixed:
  "fromisoformat (af_start_date p) = Inr a \<Longrightarrow> fromisoformat (af_end_date p) = Inr b \<Longrightarrow>
   dt_utcoffset a = None \<Longrightarrow> dt_utcoffset b = Some off \<Longrightarrow>
     airflow_validate_date_range fromisoformat p = Inl CompareError"
  by (simp add: airflow_validate_parsed datetime_gt_def datetime_cmp_mixed)

text \<open>
  C3. Let the parser accept both date strings of a request (for the warehouse request
  the end date is present). If the parsed start date is less than or equal to the parsed
  end date, \<open>validate_date_range\<close> returns; if it is greater, the method raises the
  \<open>ValueError\<close> that names both dates. One of the two is the case whenever the two
  parsed values are both offset-naive or both offset-aware. This holds for the
  orchestrator and for the warehouse request, and for any parser.
\<close>

theorem validate_date_range_ordered:
  "(fromisoformat (af_start_date p) = Inr a \<and> fromisoformat (af_end_date p) = Inr b \<longrightarrow>
      (datetime_le a b = Inr True \<longrightarrow>
         airflow_validate_date_range fromisoformat p = Inr ())
    \<and> (datetime_gt a b = Inr True \<longrightarrow>
         airflow_validate_date_range fromisoformat p =
           Inl (ValueError (''`start_date`='' @ af_start_date p
                            @ '' is greater than `end_date`='' @ af_end_date p))))
   \<and> (fromisoformat (bq_start_date q) = Inr a \<and> bq_end_date q = Some e
       \<and> fromisoformat e = Inr b \<longrightarrow>
      (datetime_le a b = Inr True \<longrightarrow>
         bqetl_validate_date_range fromisoformat q = Inr ())
    \<and> (datetime_gt a b = Inr True \<longrightarrow>
         bqetl_validate_date_range fromisoformat q =
           Inl (ValueError (''`start_date`='' @ bq_start_date q
                            @ '' is greater than `end_date`='' @ e))))
   \<and> ((dt_utcoffset a = None \<longleftrightarrow> dt_utcoffset b = None) \<longrightarrow>
        (datetime_le a b = Inr True) \<noteq> (datetime_gt a b = Inr True))"
proof -
  have af_le: "airflow_validate_date_range fromisoformat p = Inr ()"
    if "fromisoformat (af_start_date p) = Inr a" "fromisoformat (af_end_date p) = Inr b"
      "datetime_le a b = Inr True"
  proof -
    have "datetime_gt a b = Inr False"
      using that(3) by (simp only: datetime_le_iff_not_gt)
    then show ?thesis
      by (simp add: airflow_validate_parsed [OF that(1) that(2)])
  qed
  have af_gt: "airflow_validate_date_range fromisoformat p =
           Inl (ValueError (''`start_date`='' @ af_start_date p
                            @ '' is greater than `end_date`='' @ af_end_date p))"
    if "fromisoformat (af_start_date p) = Inr a" "fromisoformat (af_end_date p) = Inr b"
      "datetime_gt a b = Inr True"
    using that(3)
    by (simp add: airflow_validate_parsed [OF that(1) that(2)] date_range_message_def)
  have bq_le: "bqetl_validate_date_range fromisoformat q = Inr ()"
    if "fromisoformat (bq_start_date q) = Inr a" "bq_end_date q = Some e"
      "fromisoformat e = Inr b" "datetime_le a b = Inr True"
  proof -
    have "datetime_gt a b = Inr False"
      using that(4) by (simp only: datetime_le_iff_not_gt)
    then show ?thesis
      by (simp add: bqetl_validate_parsed [OF that(1) that(2) that(3)])
  qed
  have bq_gt: "bqetl_validate_date_range fromisoformat q =
           Inl (ValueError (''`start_date`='' @ bq_start_date q
                            @ '' is greater than `end_date`='' @ e))"
    if "fromisoformat (bq_start_date q) = Inr a" "bq_end_date q = Some e"
      "fromisoformat e = Inr b" "datetime_gt a b = Inr True"
    using that(4)
    by (simp add: bqetl_validate_parsed [OF that(1) that(2) that(3)] date_range_message_def)
  have excl: "(datetime_le a b = Inr True) \<noteq> (datetime_gt a b = Inr True)"
    if same: "dt_utcoffset a = None \<longleftrightarrow> dt_utcoffset b = None"
  proof -
    obtain c where "datetime_cmp a b = Inr c"
      using datetime_cmp_defined [OF same] by blast
    then show ?thesis
      by (auto simp: datetime_le_def datetime_gt_def)
  qed
  show ?thesis
    using af_le af_gt bq_le bq_gt excl by blast
qed

theorem validate_date_range_ordered_witness:
  "fromisoformat_date (af_start_date scenario_2) = Inr (naive_date 2023 1 1)
   \<and> fromisoformat_date (af_end_date scenario_2) = Inr (naive_date 2023 1 1)
   \<and> datetime_le (naive_date 2023 1 1) (naive_date 2023 1 1) = Inr True
   \<and> airflow_validate_date_range fromisoformat_date scenario_2 = Inr ()
   \<and> fromisoformat_date (af_start_date scenario_5) = Inr (naive_date 2023 2 1)
   \<and> fromisoformat_date (af_end_date scenario_5) = Inr (naive_date 2023 1 1)
   \<and> datetime_gt (naive_date 2023 2 1) (naive_date 2023 1 1) = Inr True
   \<and> airflow_validate_date_range fromisoformat_date scenario_5 =
       Inl (ValueError ''`start_date`=2023-02-01 is greater than `end_date`=2023-01-01'')
   \<and> fromisoformat_date (bq_start_date scenario_4) = Inr (naive_date 2023 1 1)
   \<and> bq_end_date scenario_4 = Some ''2023-01-31''
   \<and> fromisoformat_date ''2023-01-31'' = Inr (naive_date 2023 1 31)
   \<and> datetime_le (naive_date 2023 1 1) (naive_date 2023 1 31) = Inr True
   \<and> bqetl_validate_date_range fromisoformat_date scenario_4 = Inr ()
   \<and> bqetl_validate_date_range fromisoformat_date
         (scenario_4\<lparr>bq_start_date := ''2023-02-01''\<rparr>) =
       Inl (ValueError ''`start_date`=2023-02-01 is greater than `end_date`=2023-01-31'')"
proof -
  have le1: "datetime_le (naive_date 2023 1 1) (naive_date 2023 1 1) = Inr True"
    by (simp add: naive_date_le)
  have le2: "datetime_le (naive_date 2023 1 1) (naive_date 2023 1 31) = Inr True"
    by (simp add: naive_date_le less_eq_prod_def)
  have gt1: "datetime_gt (naive_date 2023 2 1) (naive_date 2023 1 1) = Inr True"
    by (simp add: naive_date_gt less_prod_def)
  have gt2: "datetime_gt (naive_date 2023 2 1) (naive_date 2023 1 31) = Inr True"
    by (simp add: naive_date_gt less_prod_def)
  note parses = fromisoformat_date_2023_01_01 fromisoformat_date_2023_01_31
    fromisoformat_date_2023_02_01
  have s2: "airflow_validate_date_range fromisoformat_date scenario_2 = Inr ()"
    using validate_date_range_ordered
      [of fromisoformat_date scenario_2 "naive_date 2023 1 1" "naive_date 2023 1 1"] le1
    by (simp add: scenario_2_def parses)
  have s5: "airflow_validate_date_range fromisoformat_date scenario_5 =
       Inl (ValueError ''`start_date`=2023-02-01 is greater than `end_date`=2023-01-01'')"
    using validate_date_range_ordered
      [of fromisoformat_date scenario_5 "naive_date 2023 2 1" "naive_date 2023 1 1"] gt1
    by (simp add: scenario_5_def parses)
  have s4: "bqetl_validate_date_range fromisoformat_date scenario_4 = Inr ()"
    using validate_date_range_ordered
      [of fromisoformat_date _ "naive_date 2023 1 1" "naive_date 2023 1 31" scenario_4
          "''2023-01-31''"] le2
    by (simp add: scenario_4_def parses)
  have s4': "bqetl_validate_date_range fromisoformat_date
         (scenario_4\<lparr>bq_start_date := ''2023-02-01''\<rparr>) =
       Inl (ValueError ''`start_date`=2023-02-01 is greater than `end_date`=2023-01-31'')"
    using validate_date_range_ordered
      [of fromisoformat_date _ "naive_date 2023 2 1" "naive_date 2023 1 31"
          "scenario_4\<lparr>bq_start_date := ''2023-02-01''\<rparr>" "''2023-01-31''"] gt2
    by (simp add: scenario_4_def parses)
  show ?thesis
    using s2 s5 s4 s4' le1 le2 gt1
    by (simp add: scenario_2_def scenario_5_def scenario_4_def parses)
qed

text \<open>
  C4, as the code has it. A warehouse request without \<open>end_date\<close> never validates. The
  method parses \<open>start_date\<close> first: if the parser rejects it, that exception leaves the
  method and the missing end date is not reached; if it is accepted, the method fails
  with the \<open>TypeError\<close> of parsing an absent end date.
\<close>

theorem bqetl_validate_without_end_date:
  "bq_end_date p = None \<longrightarrow>
     (\<exists>e. bqetl_validate_date_range fromisoformat p = Inl e)
   \<and> (\<forall>d. fromisoformat (bq_start_date p) = Inr d \<longrightarrow>
          bqetl_validate_date_range fromisoformat p = Inl NotAStringError)
   \<and> (\<forall>e. fromisoformat (bq_start_date p) = Inl e \<longrightarrow>
          bqetl_validate_date_range fromisoformat p = Inl e)"
  by (cases "fromisoformat (bq_start_date p)")
     (simp_all add: bqetl_validate_date_range_def fromisoformat_arg_def)

theorem bqetl_validate_without_end_date_witness:
  "bq_end_date (scenario_4\<lparr>bq_end_date := None\<rparr>) = None
   \<and> fromisoformat_date (bq_start_date (scenario_4\<lparr>bq_end_date := None\<rparr>)) =
       Inr (naive_date 2023 1 1)
   \<and> bqetl_validate_date_range fromisoformat_date (scenario_4\<lparr>bq_end_date := None\<rparr>) =
       Inl NotAStringError"
  using bqetl_validate_without_end_date
    [of "scenario_4\<lparr>bq_end_date := None\<rparr>" fromisoformat_date]
  by (simp add: scenario_4_def fromisoformat_date_2023_01_01)

text \<open>
  The request without \<open>end_date\<close> whose \<open>start_date\<close> is \<open>yesterday\<close> fails with the
  parser's error for the start date, not with the error for a missing end date.
\<close>

theorem bqetl_validate_unparsable_start_counterexample:
  "bq_end_date unparsable_start_request = None
   \<and> bqetl_validate_date_range fromisoformat_date unparsable_start_request =
       Inl (IsoformatError ''yesterday'')
   \<and> bqetl_validate_date_range fromisoformat_date unparsable_start_request
       \<noteq> Inl NotAStringError"
  by (simp add: bqetl_validate_date_range_def unparsable_start_request_def
      fromisoformat_date_def)

subsection \<open>Regular-expression validation\<close>






end
